theory Spec2Isabelle
  imports
    Main
    "HOL-Library.Word"
    "HOL-Library.Char_ord"
    "HOL-Library.List_Lexorder"
begin

unbundle bit_operations_syntax

section \<open>Label sets and the label builder\<close>

text \<open>
  Package \<open>pkg/labels\<close> is vendored beside \<open>pkg/relabel\<close> but is not among the
  sources at hand. \<open>labels.Labels\<close> is a slice of \<open>Label{Name, Value}\<close>, kept
  sorted by name with unique names. The nil slice is what \<open>relabel\<close> and
  \<open>Process\<close> return for a dropped label set; it is the \<open>None\<close> of the result type
  below, and a label set passed in is a list.
\<close>

record Label =
  Name :: string
  Value :: string

type_synonym Labels = "Label list"

text \<open>
  Modelled from the spec: \<open>Labels.Get\<close> of package \<open>pkg/labels\<close> (not among the
  sources). "Lookup by name returns the value or the empty string."
\<close>

fun Labels_Get :: "Labels \<Rightarrow> string \<Rightarrow> string" where
  "Labels_Get [] name = ''''"
| "Labels_Get (l # ls) name = (if Name l = name then Value l else Labels_Get ls name)"

text \<open>
  Modelled from the spec: \<open>labels.Builder\<close> of package \<open>pkg/labels\<close> (not among
  the sources). "A transient object seeded from an existing label set. Operations:
  Set(name, value), Del(name), Labels() (returns the committed set). Set overwrites; Del
  is a no-op when absent. Emitting order is deterministic (sorted by name)."

  The builder keeps its seed and records the names deleted and the labels set since;
  \<open>Labels()\<close> commits them: the seed's labels that were neither deleted nor set
  again, and the labels set, sorted by name. A builder nothing was recorded in returns
  its seed.
\<close>

record Builder =
  base :: Labels
  dels :: "string list"
  adds :: Labels

definition NewBuilder :: "Labels \<Rightarrow> Builder" where
  "NewBuilder lset = \<lparr>base = lset, dels = [], adds = []\<rparr>"

definition Builder_Del :: "Builder \<Rightarrow> string \<Rightarrow> Builder" where
  "Builder_Del b n = b\<lparr>adds := filter (\<lambda>a. Name a \<noteq> n) (adds b), dels := dels b @ [n]\<rparr>"

fun set_label :: "string \<Rightarrow> string \<Rightarrow> Labels \<Rightarrow> Labels" where
  "set_label n v [] = [\<lparr>Name = n, Value = v\<rparr>]"
| "set_label n v (a # as) =
     (if Name a = n then a\<lparr>Value := v\<rparr> # as else a # set_label n v as)"

definition Builder_Set :: "Builder \<Rightarrow> string \<Rightarrow> string \<Rightarrow> Builder" where
  "Builder_Set b n v = b\<lparr>adds := set_label n v (adds b)\<rparr>"

definition Builder_Labels :: "Builder \<Rightarrow> Labels" where
  "Builder_Labels b =
     (if dels b = [] \<and> adds b = [] then base b
      else sort_key Name
             (filter (\<lambda>l. Name l \<notin> set (dels b) \<and> Name l \<notin> Name ` set (adds b)) (base b)
              @ adds b))"

section \<open>Relabel rules\<close>

text \<open>
  \<open>regexp.Regexp\<close> is the Go library's compiled regular expression. The matching
  engine is not modelled: a compiled expression is the record of what the methods that
  \<open>relabel\<close> calls return, each a parameter. \<open>FindStringSubmatchIndex\<close> returns
  \<open>None\<close> for Go's nil (no match). \<open>expand_vars\<close> is \<open>ExpandString\<close> on a
  template that has a variable, with the destination, the template, the source string and
  the match.
\<close>

record Regexp =
  MatchString :: "string \<Rightarrow> bool"
  FindStringSubmatchIndex :: "string \<Rightarrow> int list option"
  expand_vars :: "string \<Rightarrow> string \<Rightarrow> string \<Rightarrow> int list \<Rightarrow> string"
  ReplaceAllString :: "string \<Rightarrow> string \<Rightarrow> string"

text \<open>
  \<open>Regexp.ExpandString\<close> appends the template to the destination, with each variable
  (\<open>$name\<close>, \<open>${name}\<close>, \<open>$1\<close>; \<open>$$\<close> for a dollar sign) replaced by what
  the match holds for it. Only a template with a \<open>$\<close> depends on the compiled
  expression and the match; any other template is appended as it is.
\<close>

definition ExpandString ::
  "Regexp \<Rightarrow> string \<Rightarrow> string \<Rightarrow> string \<Rightarrow> int list \<Rightarrow> string" where
  "ExpandString re dst template src match =
     (if CHR ''$'' \<in> set template then expand_vars re dst template src match
      else dst @ template)"

text \<open>
  \<open>config.Regexp\<close> (package \<open>config\<close>, not among the sources) as \<open>relabel\<close> reads
  it: \<open>Initialized()\<close>, and what \<open>Pool.Get()\<close> yields, \<open>None\<close> for nil. Every
  compiled expression of one pool is compiled from the same pattern, so \<open>Get\<close> is a
  value here and the deferred \<open>Pool.Put\<close> has no counterpart.
\<close>

record config_Regexp =
  Initialized :: bool
  Pool_Get :: "Regexp option"

text \<open>
  \<open>config.RelabelAction\<close> is a string type with seven named constants;
  \<open>RelabelOther s\<close> is any other value of the type.
\<close>

datatype RelabelAction =
    RelabelReplace
  | RelabelKeep
  | RelabelDrop
  | RelabelHashMod
  | RelabelLabelMap
  | RelabelLabelDrop
  | RelabelLabelKeep
  | RelabelOther string

text \<open>
  \<open>config.RelabelConfig\<close>, the fields \<open>relabel\<close> reads. The spec (3): "A record
  with fields: ordered list of source label names; a separator string; a compiled regular
  expression; an action; a replacement template; a target label name; a modulus (unsigned
  64-bit)."
\<close>

record RelabelConfig =
  SourceLabels :: "string list"
  Separator :: string
  Regex :: config_Regexp
  Modulus :: "64 word"
  TargetLabel :: string
  Replacement :: string
  Action :: RelabelAction

text \<open>
  The two functions of other packages that \<open>relabel\<close> calls and that depend on no
  rule: \<open>model.LabelName.IsValid\<close> ("an external policy", spec 9) and \<open>md5.Sum\<close>,
  which returns an array of \<open>md5.Size = 16\<close> bytes. Both are parameters.
\<close>

type_synonym byte = "8 word"

record externals =
  IsValid :: "string \<Rightarrow> bool"
  md5_Sum :: "byte list \<Rightarrow> byte list"

section \<open>The Go library functions that are computed\<close>

text \<open>\<open>strings.Join\<close>.\<close>

fun Join :: "string list \<Rightarrow> string \<Rightarrow> string" where
  "Join [] sep = ''''"
| "Join [x] sep = x"
| "Join (x # y # ys) sep = x @ sep @ Join (y # ys) sep"

text \<open>\<open>[]byte(val)\<close>: the bytes of a string.\<close>

definition bytes_of :: "string \<Rightarrow> byte list" where
  "bytes_of s = map (\<lambda>c. word_of_nat (of_char c)) s"

text \<open>\<open>fmt.Sprintf("%d", n)\<close> for an unsigned \<open>n\<close>, and reading it back.\<close>

definition digit_char :: "nat \<Rightarrow> char" where
  "digit_char d = ''0123456789'' ! d"

fun decimal :: "nat \<Rightarrow> string" where
  "decimal n = (if n < 10 then [digit_char n] else decimal (n div 10) @ [digit_char (n mod 10)])"

declare decimal.simps [simp del]



section \<open>Package relabel\<close>

text \<open>
  A panic is a value. \<open>PanicNilRegex\<close> is the \<open>panic(fmt.Sprintf("%v", cfg))\<close> of
  line 55, \<open>PanicUnknownAction\<close> the panic of line 112. The Go runtime adds two:
  a method of \<open>*regexp.Regexp\<close> called on the nil pointer (\<open>regex\<close> stays nil when
  \<open>cfg.Regex\<close> is not initialized), and \<open>%\<close> by zero.
\<close>

datatype panic =
    PanicNilRegex
  | PanicNilDereference
  | PanicDivideByZero
  | PanicUnknownAction RelabelAction

text \<open>
  \<open>sum64\<close> (lines 119-128). \<open>i\<close> is a Go \<open>int\<close>, \<open>md5.Size - i - 1\<close> is
  computed on \<open>int\<close> and converted to \<open>uint64\<close>; a shift of a \<open>uint64\<close> by 64
  or more is 0 in Go, as \<open>push_bit\<close> is on \<open>64 word\<close>.
\<close>

definition md5_Size :: int where
  "md5_Size = 16"

fun sum64_loop :: "int \<Rightarrow> byte list \<Rightarrow> 64 word \<Rightarrow> 64 word" where
  "sum64_loop i [] s = s"
| "sum64_loop i (b # bs) s =
     (let shift = (word_of_int ((md5_Size - i - 1) * 8) :: 64 word)
      in sum64_loop (i + 1) bs (s OR push_bit (unat shift) (ucast b)))"

definition sum64 :: "byte list \<Rightarrow> 64 word" where
  "sum64 hash = sum64_loop 0 hash 0"

text \<open>
  The three loops over \<open>lset\<close> (lines 93-98, 100-104, 106-110). Each calls
  \<open>regex.MatchString\<close> once per label, which panics on a nil \<open>regex\<close>; over an
  empty \<open>lset\<close> nothing is called.
\<close>

fun labelmap_loop :: "Regexp option \<Rightarrow> string \<Rightarrow> Labels \<Rightarrow> Builder \<Rightarrow> panic + Builder" where
  "labelmap_loop regex repl [] lb = Inr lb"
| "labelmap_loop regex repl (l # ls) lb =
     (case regex of
        None \<Rightarrow> Inl PanicNilDereference
      | Some re \<Rightarrow>
          if MatchString re (Name l)
          then labelmap_loop regex repl ls
                 (Builder_Set lb (ReplaceAllString re (Name l) repl) (Value l))
          else labelmap_loop regex repl ls lb)"

fun labeldrop_loop :: "Regexp option \<Rightarrow> Labels \<Rightarrow> Builder \<Rightarrow> panic + Builder" where
  "labeldrop_loop regex [] lb = Inr lb"
| "labeldrop_loop regex (l # ls) lb =
     (case regex of
        None \<Rightarrow> Inl PanicNilDereference
      | Some re \<Rightarrow>
          if MatchString re (Name l)
          then labeldrop_loop regex ls (Builder_Del lb (Name l))
          else labeldrop_loop regex ls lb)"

fun labelkeep_loop :: "Regexp option \<Rightarrow> Labels \<Rightarrow> Builder \<Rightarrow> panic + Builder" where
  "labelkeep_loop regex [] lb = Inr lb"
| "labelkeep_loop regex (l # ls) lb =
     (case regex of
        None \<Rightarrow> Inl PanicNilDereference
      | Some re \<Rightarrow>
          if \<not> MatchString re (Name l)
          then labelkeep_loop regex ls (Builder_Del lb (Name l))
          else labelkeep_loop regex ls lb)"

text \<open>Lines 43-47: the probe string.\<close>

definition probe :: "Labels \<Rightarrow> RelabelConfig \<Rightarrow> string" where
  "probe lset cfg = Join (map (\<lambda>ln. Labels_Get lset ln) (SourceLabels cfg)) (Separator cfg)"

text \<open>
  Lines 63-115: the switch on the action, given \<open>val\<close>, the builder and \<open>regex\<close>,
  and the final \<open>return lb.Labels()\<close>. \<open>Inr None\<close> is \<open>return nil\<close>.
\<close>

definition relabel_switch ::
  "externals \<Rightarrow> Labels \<Rightarrow> RelabelConfig \<Rightarrow> string \<Rightarrow> Builder \<Rightarrow> Regexp option
     \<Rightarrow> panic + Labels option" where
  "relabel_switch ext lset cfg val lb regex =
     (case Action cfg of
        RelabelDrop \<Rightarrow>
          (case regex of
             None \<Rightarrow> Inl PanicNilDereference
           | Some re \<Rightarrow>
               if MatchString re val then Inr None else Inr (Some (Builder_Labels lb)))
      | RelabelKeep \<Rightarrow>
          (case regex of
             None \<Rightarrow> Inl PanicNilDereference
           | Some re \<Rightarrow>
               if \<not> MatchString re val then Inr None else Inr (Some (Builder_Labels lb)))
      | RelabelReplace \<Rightarrow>
          (case regex of
             None \<Rightarrow> Inl PanicNilDereference
           | Some re \<Rightarrow>
               (case FindStringSubmatchIndex re val of
                  None \<Rightarrow> Inr (Some (Builder_Labels lb))
                | Some indexes \<Rightarrow>
                    (let target = ExpandString re [] (TargetLabel cfg) val indexes in
                     if \<not> IsValid ext target
                     then Inr (Some (Builder_Labels (Builder_Del lb (TargetLabel cfg))))
                     else
                       (let res = ExpandString re [] (Replacement cfg) val indexes in
                        if length res = 0
                        then Inr (Some (Builder_Labels (Builder_Del lb (TargetLabel cfg))))
                        else Inr (Some (Builder_Labels (Builder_Set lb target res)))))))
      | RelabelHashMod \<Rightarrow>
          (if Modulus cfg = 0 then Inl PanicDivideByZero
           else
             (let m = sum64 (md5_Sum ext (bytes_of val)) mod Modulus cfg in
              Inr (Some (Builder_Labels (Builder_Set lb (TargetLabel cfg) (decimal (unat m)))))))
      | RelabelLabelMap \<Rightarrow>
          (case labelmap_loop regex (Replacement cfg) lset lb of
             Inl p \<Rightarrow> Inl p
           | Inr lb' \<Rightarrow> Inr (Some (Builder_Labels lb')))
      | RelabelLabelDrop \<Rightarrow>
          (case labeldrop_loop regex lset lb of
             Inl p \<Rightarrow> Inl p
           | Inr lb' \<Rightarrow> Inr (Some (Builder_Labels lb')))
      | RelabelLabelKeep \<Rightarrow>
          (case labelkeep_loop regex lset lb of
             Inl p \<Rightarrow> Inl p
           | Inr lb' \<Rightarrow> Inr (Some (Builder_Labels lb')))
      | RelabelOther s \<Rightarrow> Inl (PanicUnknownAction (RelabelOther s)))"

text \<open>
  \<open>relabel\<close> (lines 42-116). Lines 51-57: \<open>regex\<close> is taken from the pool when
  \<open>cfg.Regex\<close> is initialized, and a nil from the pool panics before the switch.
\<close>

definition relabel :: "externals \<Rightarrow> Labels \<Rightarrow> RelabelConfig \<Rightarrow> panic + Labels option" where
  "relabel ext lset cfg =
     (let val = probe lset cfg;
          lb = NewBuilder lset
      in if Initialized (Regex cfg)
         then (case Pool_Get (Regex cfg) of
                 None \<Rightarrow> Inl PanicNilRegex
               | Some re \<Rightarrow> relabel_switch ext lset cfg val lb (Some re))
         else relabel_switch ext lset cfg val lb None)"

text \<open>
  \<open>Process\<close> (lines 32-40): the loop over \<open>cfgs\<close>, with its early \<open>return nil\<close>.
  A panic of \<open>relabel\<close> ends the loop as well.
\<close>

fun Process :: "externals \<Rightarrow> Labels \<Rightarrow> RelabelConfig list \<Rightarrow> panic + Labels option" where
  "Process ext labels [] = Inr (Some labels)"
| "Process ext labels (cfg # cfgs) =
     (case relabel ext labels cfg of
        Inl p \<Rightarrow> Inl p
      | Inr None \<Rightarrow> Inr None
      | Inr (Some labels') \<Rightarrow> Process ext labels' cfgs)"

section \<open>Notions of the specification\<close>

text \<open>
  Eight bytes read big-endian, the first byte the most significant, as an unsigned 64-bit
  number.
\<close>

fun be64 :: "byte list \<Rightarrow> 64 word" where
  "be64 [] = 0"
| "be64 (b # bs) = push_bit (8 * length bs) (ucast b) OR be64 bs"

text \<open>
  The seven known actions, and a validated rule (spec 3): "the regex must be non-null
  when action is not HashMod; modulus must be > 0 when action = HashMod". A rule whose
  \<open>Regex\<close> is initialized has a pool that yields a compiled expression.
\<close>

fun known_action :: "RelabelAction \<Rightarrow> bool" where
  "known_action (RelabelOther s) = False"
| "known_action a = True"

definition regex_of :: "RelabelConfig \<Rightarrow> Regexp option" where
  "regex_of cfg = (if Initialized (Regex cfg) then Pool_Get (Regex cfg) else None)"

definition validated :: "RelabelConfig \<Rightarrow> bool" where
  "validated cfg =
     (known_action (Action cfg) \<and>
      (if Action cfg = RelabelHashMod
       then Modulus cfg \<noteq> 0 \<and> (\<not> Initialized (Regex cfg) \<or> Pool_Get (Regex cfg) \<noteq> None)
       else regex_of cfg \<noteq> None))"

text \<open>
  The regex fully matches a string: its match in the string, as
  \<open>FindStringSubmatchIndex\<close> reports it, runs from index 0 to the length of the
  string. A compiled expression is anchored when that is its only way to match: what
  compiling a pattern as \<open>^(?:pattern)$\<close> gives.
\<close>

definition fully_matches :: "Regexp \<Rightarrow> string \<Rightarrow> bool" where
  "fully_matches re s =
     (case FindStringSubmatchIndex re s of
        None \<Rightarrow> False
      | Some m \<Rightarrow> take 2 m = [0, int (length s)])"

definition anchored :: "Regexp \<Rightarrow> bool" where
  "anchored re = (\<forall>s. MatchString re s \<longleftrightarrow> fully_matches re s)"

section \<open>Rules and label sets used as examples\<close>

text \<open>
  The externals of the examples: a label name is valid when it is a non-empty string of
  lower-case letters and underscores, and \<open>md5.Sum\<close> is tabulated at the two inputs
  the examples hash: the MD5 digest of the empty string is
  \<open>d41d8cd98f00b204e9800998ecf8427e\<close>, that of \<open>foo\<close> is
  \<open>acbd18db4cc2f85cedef654fccc4a4d8\<close>.
\<close>

named_theorems example_defs

definition example_IsValid :: "string \<Rightarrow> bool" where
  example_IsValid_def [example_defs]:
  "example_IsValid s = (s \<noteq> [] \<and> list_all (\<lambda>c. c \<in> set ''abcdefghijklmnopqrstuvwxyz_'') s)"

definition md5_of_empty :: "byte list" where
  md5_of_empty_def [example_defs]:
  "md5_of_empty =
     [0xd4, 0x1d, 0x8c, 0xd9, 0x8f, 0x00, 0xb2, 0x04, 0xe9, 0x80, 0x09, 0x98, 0xec, 0xf8, 0x42, 0x7e]"

definition md5_of_foo :: "byte list" where
  md5_of_foo_def [example_defs]:
  "md5_of_foo =
     [0xac, 0xbd, 0x18, 0xdb, 0x4c, 0xc2, 0xf8, 0x5c, 0xed, 0xef, 0x65, 0x4f, 0xcc, 0xc4, 0xa4, 0xd8]"

definition example_md5 :: "byte list \<Rightarrow> byte list" where
  example_md5_def [example_defs]:
  "example_md5 bs =
     (if bs = [] then md5_of_empty
      else if bs = [0x66, 0x6f, 0x6f] then md5_of_foo
      else replicate 16 0)"

definition example_externals :: externals where
  example_externals_def [example_defs]:
  "example_externals = \<lparr>IsValid = example_IsValid, md5_Sum = example_md5\<rparr>"

text \<open>
  The compiled expression of the pattern \<open>canary\<close>, anchored at both ends: it matches
  the string \<open>canary\<close> and nothing else, and has no group.
\<close>

definition re_canary :: Regexp where
  re_canary_def [example_defs]:
  "re_canary =
     \<lparr>MatchString = (\<lambda>s. s = ''canary''),
      FindStringSubmatchIndex = (\<lambda>s. if s = ''canary'' then Some [0, 6] else None),
      expand_vars = (\<lambda>dst template src match. dst),
      ReplaceAllString = (\<lambda>s repl. if s = ''canary'' then repl else s)\<rparr>"

definition rule_canary :: "RelabelAction \<Rightarrow> RelabelConfig" where
  rule_canary_def [example_defs]:
  "rule_canary a =
     \<lparr>SourceLabels = [''job''], Separator = '';'',
      Regex = \<lparr>Initialized = True, Pool_Get = Some re_canary\<rparr>,
      Modulus = 0, TargetLabel = ''env'', Replacement = ''test'', Action = a\<rparr>"

definition job_canary :: Labels where
  job_canary_def [example_defs]:
  "job_canary = [\<lparr>Name = ''job'', Value = ''canary''\<rparr>]"

definition job_prod :: Labels where
  job_prod_def [example_defs]:
  "job_prod = [\<lparr>Name = ''job'', Value = ''prod''\<rparr>]"

text \<open>
  The compiled expression of the pattern \<open>([^:]+):(\d+)\<close> of the spec's replace
  scenario, tabulated at the one probe string of the examples that it matches,
  \<open>a.example:80\<close>, with the indexes of the match and of its two groups; of the
  templates with a variable it expands \<open>$1\<close>, to the first group.
\<close>

definition re_hostport :: Regexp where
  re_hostport_def [example_defs]:
  "re_hostport =
     \<lparr>MatchString = (\<lambda>s. s = ''a.example:80''),
      FindStringSubmatchIndex =
        (\<lambda>s. if s = ''a.example:80'' then Some [0, 12, 0, 9, 10, 12] else None),
      expand_vars =
        (\<lambda>dst template src match.
           if template = ''$1''
           then dst @ take (nat (match ! 3 - match ! 2)) (drop (nat (match ! 2)) src)
           else dst),
      ReplaceAllString = (\<lambda>s repl. s)\<rparr>"

definition rule_hostport :: "string \<Rightarrow> string \<Rightarrow> RelabelConfig" where
  rule_hostport_def [example_defs]:
  "rule_hostport target repl =
     \<lparr>SourceLabels = [''addr''], Separator = '';'',
      Regex = \<lparr>Initialized = True, Pool_Get = Some re_hostport\<rparr>,
      Modulus = 0, TargetLabel = target, Replacement = repl, Action = RelabelReplace\<rparr>"

definition addr_port :: Labels where
  addr_port_def [example_defs]:
  "addr_port =
     [\<lparr>Name = ''addr'', Value = ''a.example:80''\<rparr>, \<lparr>Name = ''env'', Value = ''test''\<rparr>]"

definition addr_no_port :: Labels where
  addr_no_port_def [example_defs]:
  "addr_no_port =
     [\<lparr>Name = ''addr'', Value = ''no-port''\<rparr>, \<lparr>Name = ''env'', Value = ''test''\<rparr>]"

text \<open>The spec's HashMod scenario: source label \<open>instance\<close>, target \<open>shard\<close>.\<close>

definition rule_hashmod :: "64 word \<Rightarrow> RelabelConfig" where
  rule_hashmod_def [example_defs]:
  "rule_hashmod m =
     \<lparr>SourceLabels = [''instance''], Separator = '';'',
      Regex = \<lparr>Initialized = False, Pool_Get = None\<rparr>,
      Modulus = m, TargetLabel = ''shard'', Replacement = [], Action = RelabelHashMod\<rparr>"

definition instance_foo :: Labels where
  instance_foo_def [example_defs]:
  "instance_foo = [\<lparr>Name = ''instance'', Value = ''foo''\<rparr>]"

text \<open>
  The compiled expression of the pattern \<open>canary\<close> with no anchor: it matches the first
  occurrence of \<open>canary\<close> anywhere in the string, as Go's \<open>MatchString\<close> and
  \<open>FindStringSubmatchIndex\<close> do for it. It has no group; Drop and Keep use neither
  templates nor \<open>ReplaceAllString\<close>.
\<close>

fun find_literal :: "string \<Rightarrow> string \<Rightarrow> nat \<Rightarrow> nat option" where
  "find_literal p [] i = (if p = [] then Some i else None)"
| "find_literal p (c # cs) i =
     (if take (length p) (c # cs) = p then Some i else find_literal p cs (Suc i))"

definition re_canary_anywhere :: Regexp where
  re_canary_anywhere_def [example_defs]:
  "re_canary_anywhere =
     \<lparr>MatchString = (\<lambda>s. find_literal ''canary'' s 0 \<noteq> None),
      FindStringSubmatchIndex =
        (\<lambda>s. case find_literal ''canary'' s 0 of
                None \<Rightarrow> None
              | Some i \<Rightarrow> Some [int i, int i + 6]),
      expand_vars = (\<lambda>dst template src match. dst),
      ReplaceAllString = (\<lambda>s repl. s)\<rparr>"

definition rule_canary_anywhere :: "RelabelAction \<Rightarrow> RelabelConfig" where
  rule_canary_anywhere_def [example_defs]:
  "rule_canary_anywhere a =
     \<lparr>SourceLabels = [''job''], Separator = '';'',
      Regex = \<lparr>Initialized = True, Pool_Get = Some re_canary_anywhere\<rparr>,
      Modulus = 0, TargetLabel = ''env'', Replacement = ''test'', Action = a\<rparr>"

definition job_xcanaryx :: Labels where
  job_xcanaryx_def [example_defs]:
  "job_xcanaryx = [\<lparr>Name = ''job'', Value = ''xcanaryx''\<rparr>]"

text \<open>
  A rule over three source labels, the last of them absent from the label sets below,
  with the separator \<open>--\<close>; its expression is \<open>test--canary--\<close> anchored at both
  ends.
\<close>

definition re_test_canary :: Regexp where
  re_test_canary_def [example_defs]:
  "re_test_canary =
     \<lparr>MatchString = (\<lambda>s. s = ''test--canary--''),
      FindStringSubmatchIndex = (\<lambda>s. if s = ''test--canary--'' then Some [0, 14] else None),
      expand_vars = (\<lambda>dst template src match. dst),
      ReplaceAllString = (\<lambda>s repl. if s = ''test--canary--'' then repl else s)\<rparr>"

definition rule_env_job :: "RelabelAction \<Rightarrow> RelabelConfig" where
  rule_env_job_def [example_defs]:
  "rule_env_job a =
     \<lparr>SourceLabels = [''env'', ''job'', ''zone''], Separator = ''--'',
      Regex = \<lparr>Initialized = True, Pool_Get = Some re_test_canary\<rparr>,
      Modulus = 0, TargetLabel = ''env'', Replacement = ''test'', Action = a\<rparr>"

definition test_canary :: Labels where
  test_canary_def [example_defs]:
  "test_canary = [\<lparr>Name = ''env'', Value = ''test''\<rparr>, \<lparr>Name = ''job'', Value = ''canary''\<rparr>]"

definition test_prod :: Labels where
  test_prod_def [example_defs]:
  "test_prod = [\<lparr>Name = ''env'', Value = ''test''\<rparr>, \<lparr>Name = ''job'', Value = ''prod''\<rparr>]"

text \<open>A label set with a label named \<open>canary\<close> and one that is not.\<close>

definition canary_and_job :: Labels where
  canary_and_job_def [example_defs]:
  "canary_and_job = [\<lparr>Name = ''canary'', Value = ''1''\<rparr>, \<lparr>Name = ''job'', Value = ''prod''\<rparr>]"

section \<open>The label builder\<close>

lemma Builder_Labels_NewBuilder: "Builder_Labels (NewBuilder lset) = lset"
  by (simp add: Builder_Labels_def NewBuilder_def)

lemma Builder_Labels_Del:
  "Builder_Labels (Builder_Del (NewBuilder lset) n) =
     sort_key Name (filter (\<lambda>l. Name l \<noteq> n) lset)"
  by (simp add: Builder_Labels_def NewBuilder_def Builder_Del_def)

lemma Builder_Labels_Set:
  "Builder_Labels (Builder_Set (NewBuilder lset) n v) =
     sort_key Name (filter (\<lambda>l. Name l \<noteq> n) lset @ [\<lparr>Name = n, Value = v\<rparr>])"
  by (simp add: Builder_Labels_def NewBuilder_def Builder_Set_def)

section \<open>Process\<close>

lemma Process_append:
  "Process ext L (rs @ rs') =
     (case Process ext L rs of
        Inl p \<Rightarrow> Inl p
      | Inr None \<Rightarrow> Inr None
      | Inr (Some L') \<Rightarrow> Process ext L' rs')"
  by (induction rs arbitrary: L) (auto split: sum.splits option.splits)

lemma Process_single: "Process ext L [r] = relabel ext L r"
  by (simp split: sum.splits option.splits)

text \<open>
  C2. \<open>Process\<close> applies the rules in order, the output of a rule being the input of the
  next: with no rule it returns its input; with one more rule \<open>r\<close> at the end it
  returns what \<open>r\<close> makes of the output of the rules before it; and once a prefix of
  the rules has returned nil (or has panicked), that is the result whatever rules follow:
  they are not applied.
\<close>

theorem Process_in_order:
  "Process ext L [] = Inr (Some L) \<and>
   Process ext L (rs @ [r]) =
     (case Process ext L rs of
        Inl p \<Rightarrow> Inl p
      | Inr None \<Rightarrow> Inr None
      | Inr (Some L') \<Rightarrow> relabel ext L' r) \<and>
   Process ext L (rs @ rs') =
     (case Process ext L rs of
        Inl p \<Rightarrow> Inl p
      | Inr None \<Rightarrow> Inr None
      | Inr (Some L') \<Rightarrow> Process ext L' rs')"
proof -
  have "Process ext L (rs @ [r]) =
     (case Process ext L rs of
        Inl p \<Rightarrow> Inl p
      | Inr None \<Rightarrow> Inr None
      | Inr (Some L') \<Rightarrow> Process ext L' [r])"
    by (rule Process_append)
  then show ?thesis
    by (simp only: Process_single Process_append Process.simps(1) simp_thms)
qed

text \<open>
  The rule after a drop is not applied: its unknown action would panic.
\<close>

theorem Process_in_order_witness:
  "Process example_externals job_canary
     ([rule_canary RelabelDrop] @ [rule_canary (RelabelOther ''explode'')]) = Inr None \<and>
   Process example_externals job_prod
     ([rule_canary RelabelDrop] @ [rule_canary RelabelKeep]) = Inr None \<and>
   Process example_externals job_canary
     ([rule_canary RelabelKeep] @ [rule_canary RelabelLabelDrop]) =
       Inr (Some job_canary)"
proof -
  have drop1: "Process example_externals job_canary [rule_canary RelabelDrop] = Inr None"
    by (simp add: relabel_def relabel_switch_def probe_def example_defs)
  have drop2: "Process example_externals job_prod [rule_canary RelabelDrop] = Inr (Some job_prod)"
    by (simp add: relabel_def relabel_switch_def probe_def Builder_Labels_NewBuilder example_defs)
  have keep2: "relabel example_externals job_prod (rule_canary RelabelKeep) = Inr None"
    by (simp add: relabel_def relabel_switch_def probe_def example_defs)
  have keep1: "Process example_externals job_canary [rule_canary RelabelKeep] = Inr (Some job_canary)"
    by (simp add: relabel_def relabel_switch_def probe_def Builder_Labels_NewBuilder example_defs)
  have ldrop: "relabel example_externals job_canary (rule_canary RelabelLabelDrop) =
      Inr (Some job_canary)"
    by (simp add: relabel_def relabel_switch_def probe_def Builder_Labels_NewBuilder example_defs)
  show ?thesis
    using Process_in_order [of example_externals job_canary "[rule_canary RelabelDrop]"
        "rule_canary (RelabelOther ''explode'')" "[rule_canary (RelabelOther ''explode'')]"]
      Process_in_order [of example_externals job_prod "[rule_canary RelabelDrop]"
        "rule_canary RelabelKeep" "[rule_canary RelabelKeep]"]
      Process_in_order [of example_externals job_canary "[rule_canary RelabelKeep]"
        "rule_canary RelabelLabelDrop" "[rule_canary RelabelLabelDrop]"]
    by (simp only: drop1 drop2 keep1 keep2 ldrop sum.case option.case simp_thms)
qed

section \<open>Drop and Keep\<close>

text \<open>
  C3, as stated, fails: \<open>relabel\<close> asks \<open>regex.MatchString(val)\<close> (lines 65 and 69),
  which holds when the string contains a match, and adds no anchor of its own. With the
  expression of the pattern \<open>canary\<close> compiled without anchors, the probe string
  \<open>xcanaryx\<close> is not fully matched, yet Drop returns nil for it and Keep does not.
\<close>

theorem relabel_drop_keep_counterexample:
  "probe job_xcanaryx (rule_canary_anywhere RelabelDrop) = ''xcanaryx'' \<and>
   FindStringSubmatchIndex re_canary_anywhere ''xcanaryx'' = Some [1, 7] \<and>
   \<not> fully_matches re_canary_anywhere ''xcanaryx'' \<and>
   relabel example_externals job_xcanaryx (rule_canary_anywhere RelabelDrop) = Inr None \<and>
   relabel example_externals job_xcanaryx (rule_canary_anywhere RelabelKeep) =
     Inr (Some job_xcanaryx)"
  by (simp add: relabel_def relabel_switch_def probe_def fully_matches_def example_defs
      Builder_Labels_NewBuilder)

text \<open>
  C3, amended. For a rule whose compiled expression \<open>re\<close> is there (the rule's
  \<open>Regex\<close> is initialized and its pool yields \<open>re\<close>), and with \<open>V\<close> the values
  of the source labels (the empty string for a missing one) joined by the separator: with
  action Drop, \<open>relabel\<close> returns nil exactly when \<open>re.MatchString(V)\<close> holds, that
  is when \<open>V\<close> contains a match; with action Keep, exactly when it does not hold.
  For an anchored expression, and only by that, this is the full-string match: Drop
  returns nil exactly when \<open>re\<close> fully matches \<open>V\<close>, Keep exactly when it does not.
\<close>

theorem relabel_drop_keep_match:
  assumes "Initialized (Regex cfg)" and "Pool_Get (Regex cfg) = Some re"
  shows "(Action cfg = RelabelDrop \<longrightarrow>
            (relabel ext lset cfg = Inr None \<longleftrightarrow>
               MatchString re
                 (Join (map (\<lambda>ln. Labels_Get lset ln) (SourceLabels cfg)) (Separator cfg)))) \<and>
         (Action cfg = RelabelKeep \<longrightarrow>
            (relabel ext lset cfg = Inr None \<longleftrightarrow>
               \<not> MatchString re
                 (Join (map (\<lambda>ln. Labels_Get lset ln) (SourceLabels cfg)) (Separator cfg)))) \<and>
         (anchored re \<longrightarrow> Action cfg = RelabelDrop \<longrightarrow>
            (relabel ext lset cfg = Inr None \<longleftrightarrow>
               fully_matches re
                 (Join (map (\<lambda>ln. Labels_Get lset ln) (SourceLabels cfg)) (Separator cfg)))) \<and>
         (anchored re \<longrightarrow> Action cfg = RelabelKeep \<longrightarrow>
            (relabel ext lset cfg = Inr None \<longleftrightarrow>
               \<not> fully_matches re
                 (Join (map (\<lambda>ln. Labels_Get lset ln) (SourceLabels cfg)) (Separator cfg))))"
proof -
  let ?V = "Join (map (\<lambda>ln. Labels_Get lset ln) (SourceLabels cfg)) (Separator cfg)"
  have drop: "relabel ext lset cfg = Inr None \<longleftrightarrow> MatchString re ?V"
    if "Action cfg = RelabelDrop"
    using assms that by (simp add: relabel_def relabel_switch_def probe_def)
  have keep: "relabel ext lset cfg = Inr None \<longleftrightarrow> \<not> MatchString re ?V"
    if "Action cfg = RelabelKeep"
    using assms that by (simp add: relabel_def relabel_switch_def probe_def)
  have full: "MatchString re ?V \<longleftrightarrow> fully_matches re ?V" if "anchored re"
    using that by (simp add: anchored_def)
  show ?thesis
    using drop keep full by blast
qed

text \<open>
  Three source labels, the third missing, joined by \<open>--\<close>; the expression is anchored.
\<close>

theorem relabel_drop_keep_match_witness:
  "Join (map (\<lambda>ln. Labels_Get test_canary ln) (SourceLabels (rule_env_job RelabelDrop)))
     (Separator (rule_env_job RelabelDrop)) = ''test--canary--'' \<and>
   anchored re_test_canary \<and>
   fully_matches re_test_canary ''test--canary--'' \<and>
   relabel example_externals test_canary (rule_env_job RelabelDrop) = Inr None \<and>
   relabel example_externals test_canary (rule_env_job RelabelKeep) \<noteq> Inr None \<and>
   Join (map (\<lambda>ln. Labels_Get test_prod ln) (SourceLabels (rule_env_job RelabelKeep)))
     (Separator (rule_env_job RelabelKeep)) = ''test--prod--'' \<and>
   \<not> fully_matches re_test_canary ''test--prod--'' \<and>
   relabel example_externals test_prod (rule_env_job RelabelDrop) \<noteq> Inr None \<and>
   relabel example_externals test_prod (rule_env_job RelabelKeep) = Inr None"
proof -
  have init: "Initialized (Regex (rule_env_job a))"
    and pool: "Pool_Get (Regex (rule_env_job a)) = Some re_test_canary" for a
    by (simp_all add: rule_env_job_def)
  have act: "Action (rule_env_job a) = a" for a
    by (simp add: rule_env_job_def)
  have v1: "Join (map (\<lambda>ln. Labels_Get test_canary ln) (SourceLabels (rule_env_job a)))
      (Separator (rule_env_job a)) = ''test--canary--''"
    and v2: "Join (map (\<lambda>ln. Labels_Get test_prod ln) (SourceLabels (rule_env_job a)))
      (Separator (rule_env_job a)) = ''test--prod--''" for a
    by (simp_all add: rule_env_job_def test_canary_def test_prod_def)
  have anch: "anchored re_test_canary"
    by (simp add: anchored_def fully_matches_def re_test_canary_def)
  have f1: "fully_matches re_test_canary ''test--canary--''"
    and f2: "\<not> fully_matches re_test_canary ''test--prod--''"
    by (simp_all add: fully_matches_def re_test_canary_def)
  have m1: "MatchString re_test_canary ''test--canary--''"
    and m2: "\<not> MatchString re_test_canary ''test--prod--''"
    by (simp_all add: re_test_canary_def)
  show ?thesis
    using relabel_drop_keep_match [OF init pool, of RelabelDrop example_externals test_canary]
      relabel_drop_keep_match [OF init pool, of RelabelKeep example_externals test_canary]
      relabel_drop_keep_match [OF init pool, of RelabelDrop example_externals test_prod]
      relabel_drop_keep_match [OF init pool, of RelabelKeep example_externals test_prod]
    by (simp add: act v1 v2 anch f1 f2 m1 m2)
qed

text \<open>
  C10. Drop and Keep only filter: when \<open>relabel\<close> returns a label set for a rule of
  either action, it is the label set it was given.
\<close>

theorem relabel_drop_keep_frame:
  assumes "Action cfg = RelabelDrop \<or> Action cfg = RelabelKeep"
    and "relabel ext lset cfg = Inr (Some lset')"
  shows "lset' = lset"
  using assms
  by (auto simp add: relabel_def relabel_switch_def Builder_Labels_NewBuilder Let_def
      split: if_splits option.splits)

theorem relabel_drop_keep_frame_witness:
  "relabel example_externals job_prod (rule_canary RelabelDrop) = Inr (Some job_prod) \<and>
   relabel example_externals job_canary (rule_canary RelabelKeep) = Inr (Some job_canary)"
proof -
  have act: "Action (rule_canary a) = a" for a
    by (simp add: rule_canary_def)
  have r1: "\<exists>l. relabel example_externals job_prod (rule_canary RelabelDrop) = Inr (Some l)"
    by (simp add: relabel_def relabel_switch_def probe_def example_defs)
  have r2: "\<exists>l. relabel example_externals job_canary (rule_canary RelabelKeep) = Inr (Some l)"
    by (simp add: relabel_def relabel_switch_def probe_def example_defs)
  from r1 obtain l1 where
    l1: "relabel example_externals job_prod (rule_canary RelabelDrop) = Inr (Some l1)" ..
  from r2 obtain l2 where
    l2: "relabel example_externals job_canary (rule_canary RelabelKeep) = Inr (Some l2)" ..
  have "l1 = job_prod"
    using relabel_drop_keep_frame [OF _ l1] by (simp add: act)
  moreover have "l2 = job_canary"
    using relabel_drop_keep_frame [OF _ l2] by (simp add: act)
  ultimately show ?thesis
    using l1 l2 by simp
qed

lemma Labels_Get_filter:
  "Labels_Get ls n = (case filter (\<lambda>l. Name l = n) ls of [] \<Rightarrow> '''' | l # _ \<Rightarrow> Value l)"
  by (induction ls) auto

lemma Labels_Get_sort_key: "Labels_Get (sort_key Name ls) n = Labels_Get ls n"
  by (simp add: Labels_Get_filter sort_key_stable)

lemma Labels_Get_filter_neq:
  "Labels_Get (filter (\<lambda>l. Name l \<noteq> t) ls) n = (if n = t then '''' else Labels_Get ls n)"
  by (induction ls) auto


text \<open>
  What the spec says of the builder, in lookups: after \<open>Del\<close> the name is absent, after
  \<open>Set\<close> it has the value set, and every other name keeps its value.
\<close>

lemma Labels_Get_Del:
  "Labels_Get (Builder_Labels (Builder_Del (NewBuilder lset) t)) n =
     (if n = t then '''' else Labels_Get lset n)"
  by (simp add: Builder_Labels_Del Labels_Get_sort_key Labels_Get_filter_neq)


text \<open>On a label set sorted by name, deleting keeps the order: nothing is moved.\<close>

lemma sort_key_filter_sorted:
  "sorted (map Name ls) \<Longrightarrow> sort_key Name (filter P ls) = filter P ls"
  by (simp add: sort_key_id_if_sorted sorted_filter)

lemma Builder_Del_absent:
  assumes "sorted (map Name lset)" and "n \<notin> Name ` set lset"
  shows "Builder_Labels (Builder_Del (NewBuilder lset) n) = lset"
proof -
  have "filter (\<lambda>l. Name l \<noteq> n) lset = lset"
    using assms(2) by (auto simp add: filter_id_conv)
  then show ?thesis
    using assms(1) by (simp add: Builder_Labels_Del sort_key_id_if_sorted)
qed

section \<open>Replace\<close>

text \<open>
  C4. For a rule with action Replace whose compiled expression \<open>re\<close> is there: if
  \<open>re\<close> has no match in the probe string, the label set is returned unchanged.
  Otherwise, with \<open>N\<close> the target-label template and \<open>R\<close> the replacement template,
  each expanded against the match: if \<open>N\<close> is not a valid label name, or else if
  \<open>R\<close> is empty, the result is the label set without the rule's target label; else
  it is the label set with label \<open>N\<close> set to \<open>R\<close>. (The builder emits its labels
  sorted by name.)
\<close>

theorem relabel_replace:
  assumes "Action cfg = RelabelReplace"
    and "Initialized (Regex cfg)" and "Pool_Get (Regex cfg) = Some re"
  shows "relabel ext lset cfg =
     (case FindStringSubmatchIndex re (probe lset cfg) of
        None \<Rightarrow> Inr (Some lset)
      | Some m \<Rightarrow>
          (let N = ExpandString re [] (TargetLabel cfg) (probe lset cfg) m;
               R = ExpandString re [] (Replacement cfg) (probe lset cfg) m
           in if \<not> IsValid ext N
              then Inr (Some (sort_key Name (filter (\<lambda>l. Name l \<noteq> TargetLabel cfg) lset)))
              else if R = []
              then Inr (Some (sort_key Name (filter (\<lambda>l. Name l \<noteq> TargetLabel cfg) lset)))
              else Inr (Some (sort_key Name
                     (filter (\<lambda>l. Name l \<noteq> N) lset @ [\<lparr>Name = N, Value = R\<rparr>])))))"
  using assms
  by (simp add: relabel_def relabel_switch_def Let_def Builder_Labels_NewBuilder
      Builder_Labels_Del Builder_Labels_Set split: option.splits)

text \<open>
  The spec's replace scenario: \<open>host\<close> is added from the first group; an address with
  no port is left alone; a target that is no valid label name deletes (here: nothing).
\<close>

theorem relabel_replace_witness:
  "relabel example_externals addr_no_port (rule_hostport ''host'' ''$1'') =
     Inr (Some addr_no_port) \<and>
   relabel example_externals addr_port (rule_hostport ''host'' ''$1'') =
     Inr (Some
       [\<lparr>Name = ''addr'', Value = ''a.example:80''\<rparr>, \<lparr>Name = ''env'', Value = ''test''\<rparr>,
        \<lparr>Name = ''host'', Value = ''a.example''\<rparr>]) \<and>
   relabel example_externals addr_port (rule_hostport ''env'' ''prod'') =
     Inr (Some
       [\<lparr>Name = ''addr'', Value = ''a.example:80''\<rparr>, \<lparr>Name = ''env'', Value = ''prod''\<rparr>]) \<and>
   relabel example_externals addr_port (rule_hostport ''bad name'' ''$1'') =
     Inr (Some addr_port)"
proof -
  have act: "Action (rule_hostport t r) = RelabelReplace"
    and init: "Initialized (Regex (rule_hostport t r))"
    and pool: "Pool_Get (Regex (rule_hostport t r)) = Some re_hostport" for t r
    by (simp_all add: rule_hostport_def)
  show ?thesis
    using relabel_replace [OF act init pool, of example_externals addr_no_port "''host''" "''$1''"]
      relabel_replace [OF act init pool, of example_externals addr_port "''host''" "''$1''"]
      relabel_replace [OF act init pool, of example_externals addr_port "''env''" "''prod''"]
      relabel_replace [OF act init pool, of example_externals addr_port "''bad name''" "''$1''"]
    by (simp add: probe_def example_defs ExpandString_def)
qed

text \<open>
  C7, as stated, fails: a Replace rule with the empty replacement whose expression does
  not match the probe string leaves the target label \<open>env\<close> in place ("If there is no
  match no replacement must take place", line 74), where deleting it gives another label
  set.
\<close>

theorem relabel_replace_empty_counterexample:
  "Replacement (rule_hostport ''env'' []) = [] \<and>
   relabel example_externals addr_no_port (rule_hostport ''env'' []) = Inr (Some addr_no_port) \<and>
   Builder_Labels (Builder_Del (NewBuilder addr_no_port) ''env'') =
     [\<lparr>Name = ''addr'', Value = ''no-port''\<rparr>] \<and>
   addr_no_port \<noteq> [\<lparr>Name = ''addr'', Value = ''no-port''\<rparr>]"
  by (simp add: relabel_def relabel_switch_def probe_def example_defs ExpandString_def
      Builder_Labels_NewBuilder Builder_Labels_Del)

text \<open>
  C7, amended. For a rule with action Replace and the empty replacement template whose
  compiled expression \<open>re\<close> is there: when \<open>re\<close> matches the probe string, the
  result is that of deleting the rule's target label from the label set; when it does
  not, the label set is returned unchanged.
\<close>

theorem relabel_replace_empty:
  assumes "Action cfg = RelabelReplace" and "Replacement cfg = []"
    and "Initialized (Regex cfg)" and "Pool_Get (Regex cfg) = Some re"
  shows "relabel ext lset cfg =
     (if FindStringSubmatchIndex re (probe lset cfg) = None
      then Inr (Some lset)
      else Inr (Some (Builder_Labels (Builder_Del (NewBuilder lset) (TargetLabel cfg)))))"
  using assms
  by (auto simp add: relabel_def relabel_switch_def Let_def Builder_Labels_NewBuilder
      ExpandString_def)

theorem relabel_replace_empty_witness:
  "FindStringSubmatchIndex re_hostport (probe addr_port (rule_hostport ''env'' [])) \<noteq> None \<and>
   relabel example_externals addr_port (rule_hostport ''env'' []) =
     Inr (Some [\<lparr>Name = ''addr'', Value = ''a.example:80''\<rparr>]) \<and>
   FindStringSubmatchIndex re_hostport (probe addr_no_port (rule_hostport ''env'' [])) = None \<and>
   relabel example_externals addr_no_port (rule_hostport ''env'' []) = Inr (Some addr_no_port)"
proof -
  have act: "Action (rule_hostport t r) = RelabelReplace"
    and repl: "Replacement (rule_hostport t []) = []"
    and init: "Initialized (Regex (rule_hostport t r))"
    and pool: "Pool_Get (Regex (rule_hostport t r)) = Some re_hostport" for t r
    by (simp_all add: rule_hostport_def)
  show ?thesis
    using relabel_replace_empty [OF act repl init pool, of example_externals addr_port "''env''"]
      relabel_replace_empty [OF act repl init pool, of example_externals addr_no_port "''env''"]
    by (simp add: probe_def example_defs Builder_Labels_Del)
qed

section \<open>HashMod\<close>

lemma sum64_shift:
  assumes "0 \<le> i" and "i + 1 + int n = 16"
  shows "unat (word_of_int ((md5_Size - i - 1) * 8) :: 64 word) = 8 * n"
proof -
  define m where "m = 8 * n"
  have eq: "(md5_Size - i - 1) * 8 = int m"
    using assms by (simp add: md5_Size_def m_def)
  have "m < 2 ^ 64"
    using assms by (simp add: m_def)
  then have "unat (word_of_nat m :: 64 word) = m"
    by (simp add: unat_of_nat)
  then show ?thesis
    by (simp only: eq of_int_of_nat_eq m_def)
qed

text \<open>
  The loop of \<open>sum64\<close> from index \<open>i\<close> on: the bytes at indexes below 8 are shifted
  by 64 bits or more and leave nothing; those from index 8 on are read big-endian.
\<close>

lemma sum64_loop_be64:
  "0 \<le> i \<Longrightarrow> i + int (length bs) = 16 \<Longrightarrow>
   sum64_loop i bs s = s OR be64 (drop (nat (8 - i)) bs)"
proof (induction bs arbitrary: i s)
  case Nil
  then show ?case by simp
next
  case (Cons b bs)
  have sh: "unat (word_of_int ((md5_Size - i - 1) * 8) :: 64 word) = 8 * length bs"
    using Cons.prems by (intro sum64_shift) simp_all
  have IH: "sum64_loop (i + 1) bs t = t OR be64 (drop (nat (8 - (i + 1))) bs)" for t
    using Cons.prems by (intro Cons.IH) simp_all
  show ?case
  proof (cases "i < 8")
    case True
    then have "64 \<le> 8 * length bs"
      using Cons.prems by simp
    then have z: "push_bit (8 * length bs) (ucast b :: 64 word) = 0"
      by simp
    have "nat (8 - i) = Suc (nat (8 - (i + 1)))"
      using True by simp
    then have d: "drop (nat (8 - i)) (b # bs) = drop (nat (8 - (i + 1))) bs"
      by (simp only: drop_Suc_Cons)
    show ?thesis
      by (simp only: sum64_loop.simps Let_def sh z d IH) simp
  next
    case False
    then have d: "drop (nat (8 - i)) (b # bs) = b # bs" "drop (nat (8 - (i + 1))) bs = bs"
      by simp_all
    show ?thesis
      by (simp only: sum64_loop.simps Let_def sh d IH be64.simps) (simp add: ac_simps)
  qed
qed

lemma sum64_last8: "length hash = 16 \<Longrightarrow> sum64 hash = be64 (drop 8 hash)"
  using sum64_loop_be64 [of 0 hash 0] by (simp add: sum64_def)

lemma be64_example:
  "be64 [0x01, 0x02, 0x03, 0x04, 0x05, 0x06, 0x07, 0x08] = 0x0102030405060708"
  by simp




text \<open>
  Lines 89-91, for a rule whose pool, when its \<open>Regex\<close> is initialized, yields a
  compiled expression (line 55 panics otherwise, whatever the action).
\<close>

lemma relabel_hashmod:
  assumes "Action cfg = RelabelHashMod"
    and "Initialized (Regex cfg) \<longrightarrow> Pool_Get (Regex cfg) \<noteq> None"
  shows "relabel ext lset cfg =
     (if Modulus cfg = 0 then Inl PanicDivideByZero
      else Inr (Some (Builder_Labels (Builder_Set (NewBuilder lset) (TargetLabel cfg)
             (decimal (unat (sum64 (md5_Sum ext (bytes_of (probe lset cfg))) mod Modulus cfg)))))))"
  using assms
  by (auto simp add: relabel_def relabel_switch_def Let_def split: option.splits)

text \<open>
  C5, as stated, fails: \<open>sum64\<close> shifts byte \<open>i\<close> of the 16-byte hash by
  \<open>(16 - i - 1) * 8\<close> bits, so the first 8 bytes are shifted out of the 64 bits and
  the digest is made of the last 8. For the probe string \<open>foo\<close>, whose MD5 hash is
  \<open>acbd18db4cc2f85cedef654fccc4a4d8\<close>, and modulus 8, the label is set to \<open>0\<close>;
  the first 8 bytes read big-endian give 4 modulo 8.
\<close>

theorem relabel_hashmod_first8_counterexample:
  "probe instance_foo (rule_hashmod 8) = ''foo'' \<and>
   md5_Sum example_externals (bytes_of ''foo'') = md5_of_foo \<and>
   sum64 md5_of_foo = 0xedef654fccc4a4d8 \<and>
   be64 (take 8 md5_of_foo) = 0xacbd18db4cc2f85c \<and>
   relabel example_externals instance_foo (rule_hashmod 8) =
     Inr (Some [\<lparr>Name = ''instance'', Value = ''foo''\<rparr>, \<lparr>Name = ''shard'', Value = ''0''\<rparr>]) \<and>
   decimal (unat (be64 (take 8 md5_of_foo) mod Modulus (rule_hashmod 8))) = ''4''"
  by (simp add: relabel_def relabel_switch_def probe_def example_defs bytes_of_def
      Builder_Labels_Set sum64_def md5_Size_def decimal.simps digit_char_def)

text \<open>
  C5, amended. For a rule with action HashMod and a modulus other than 0 (and a pool
  that yields a compiled expression when the rule's \<open>Regex\<close> is initialized), and for
  every probe string, whose MD5 hash has 16 bytes: the 64-bit digest is the last 8 bytes
  of the hash read big-endian, and the result is the label set with the target label set
  to the decimal representation of the digest modulo the modulus.
\<close>

theorem relabel_hashmod_digest:
  assumes "Action cfg = RelabelHashMod" and "Modulus cfg \<noteq> 0"
    and "Initialized (Regex cfg) \<longrightarrow> Pool_Get (Regex cfg) \<noteq> None"
    and "length (md5_Sum ext (bytes_of (probe lset cfg))) = 16"
  shows "sum64 (md5_Sum ext (bytes_of (probe lset cfg))) =
           be64 (drop 8 (md5_Sum ext (bytes_of (probe lset cfg)))) \<and>
         relabel ext lset cfg =
           Inr (Some (sort_key Name
             (filter (\<lambda>l. Name l \<noteq> TargetLabel cfg) lset @
              [\<lparr>Name = TargetLabel cfg,
                Value = decimal (unat (be64 (drop 8 (md5_Sum ext (bytes_of (probe lset cfg))))
                                        mod Modulus cfg))\<rparr>])))"
  using assms(2,4) relabel_hashmod [OF assms(1,3), of ext lset]
  by (simp add: sum64_last8 Builder_Labels_Set)

theorem relabel_hashmod_digest_witness:
  "length (md5_Sum example_externals (bytes_of (probe instance_foo (rule_hashmod 1000)))) = 16 \<and>
   be64 (drop 8 (md5_Sum example_externals (bytes_of (probe instance_foo (rule_hashmod 1000))))) =
     0xedef654fccc4a4d8 \<and>
   sum64 (md5_Sum example_externals (bytes_of (probe instance_foo (rule_hashmod 1000)))) =
     0xedef654fccc4a4d8 \<and>
   relabel example_externals instance_foo (rule_hashmod 1000) =
     Inr (Some [\<lparr>Name = ''instance'', Value = ''foo''\<rparr>, \<lparr>Name = ''shard'', Value = ''696''\<rparr>])"
proof -
  have act: "Action (rule_hashmod 1000) = RelabelHashMod"
    and nz: "Modulus (rule_hashmod 1000) \<noteq> 0"
    and pool: "Initialized (Regex (rule_hashmod 1000)) \<longrightarrow>
        Pool_Get (Regex (rule_hashmod 1000)) \<noteq> None"
    by (simp_all add: rule_hashmod_def)
  have h: "md5_Sum example_externals (bytes_of (probe instance_foo (rule_hashmod 1000))) =
      md5_of_foo"
    by (simp add: probe_def example_defs bytes_of_def)
  have len: "length (md5_Sum example_externals
      (bytes_of (probe instance_foo (rule_hashmod 1000)))) = 16"
    by (simp add: h md5_of_foo_def)
  have be: "be64 (drop 8 md5_of_foo) = 0xedef654fccc4a4d8"
    by (simp add: md5_of_foo_def)
  have tl: "TargetLabel (rule_hashmod 1000) = ''shard''"
    and md: "Modulus (rule_hashmod 1000) = 1000"
    by (simp_all add: rule_hashmod_def)
  have dec: "decimal (unat ((0xedef654fccc4a4d8 :: 64 word) mod 1000)) = ''696''"
    by (simp add: decimal.simps digit_char_def)
  have srt: "sort_key Name
      (filter (\<lambda>l. Name l \<noteq> ''shard'') instance_foo @ [\<lparr>Name = ''shard'', Value = ''696''\<rparr>]) =
      [\<lparr>Name = ''instance'', Value = ''foo''\<rparr>, \<lparr>Name = ''shard'', Value = ''696''\<rparr>]"
    by (simp add: instance_foo_def)
  have "sum64 md5_of_foo = 0xedef654fccc4a4d8 \<and>
      relabel example_externals instance_foo (rule_hashmod 1000) =
        Inr (Some [\<lparr>Name = ''instance'', Value = ''foo''\<rparr>, \<lparr>Name = ''shard'', Value = ''696''\<rparr>])"
    using relabel_hashmod_digest [OF act nz pool len]
    by (simp only: h be tl md dec srt)
  then show ?thesis
    using len by (simp only: h be simp_thms)
qed



section \<open>LabelKeep\<close>

lemma Builder_Del_no_adds:
  "adds lb = [] \<Longrightarrow> Builder_Del lb n = lb\<lparr>dels := dels lb @ [n]\<rparr>"
  by (simp add: Builder_Del_def)

lemma labelkeep_loop_Some:
  "adds lb = [] \<Longrightarrow>
   labelkeep_loop (Some re) ls lb =
     Inr (lb\<lparr>dels := dels lb @ map Name (filter (\<lambda>l. \<not> MatchString re (Name l)) ls)\<rparr>)"
proof (induction ls arbitrary: lb)
  case Nil
  then show ?case by simp
next
  case (Cons l ls)
  show ?case
  proof (cases "MatchString re (Name l)")
    case True
    then show ?thesis
      using Cons.IH [OF Cons.prems] by simp
  next
    case False
    have a: "adds (Builder_Del lb (Name l)) = []"
      using Cons.prems by (simp add: Builder_Del_def)
    show ?thesis
      using False Cons.IH [OF a] Cons.prems
      by (simp add: Builder_Del_no_adds)
  qed
qed


text \<open>
  What LabelKeep returns (lines 106-110): the label set itself when every name matches
  (nothing is recorded in the builder), and otherwise its labels whose names match,
  sorted by name.
\<close>

lemma relabel_labelkeep:
  assumes "Action cfg = RelabelLabelKeep"
    and "Initialized (Regex cfg)" and "Pool_Get (Regex cfg) = Some re"
  shows "relabel ext L cfg =
     Inr (Some (if \<forall>l \<in> set L. MatchString re (Name l) then L
                else sort_key Name (filter (\<lambda>l. MatchString re (Name l)) L)))"
proof -
  let ?D = "map Name (filter (\<lambda>l. \<not> MatchString re (Name l)) L)"
  have f: "filter (\<lambda>l. Name l \<notin> set ?D) L = filter (\<lambda>l. MatchString re (Name l)) L"
    by (rule filter_cong) auto
  have e: "?D = [] \<longleftrightarrow> (\<forall>l \<in> set L. MatchString re (Name l))"
    by (simp add: filter_empty_conv)
  have lp: "labelkeep_loop (Some re) L (NewBuilder L) = Inr ((NewBuilder L)\<lparr>dels := ?D\<rparr>)"
    using labelkeep_loop_Some [of "NewBuilder L" re L] by (simp add: NewBuilder_def)
  have "relabel ext L cfg = Inr (Some (Builder_Labels ((NewBuilder L)\<lparr>dels := ?D\<rparr>)))"
    using assms by (simp add: relabel_def relabel_switch_def lp)
  also have "Builder_Labels ((NewBuilder L)\<lparr>dels := ?D\<rparr>) =
      (if ?D = [] then L else sort_key Name (filter (\<lambda>l. Name l \<notin> set ?D) L))"
    by (simp add: Builder_Labels_def NewBuilder_def)
  finally show ?thesis
    by (simp only: f e)
qed

text \<open>
  C8. For a rule with action LabelKeep whose compiled expression is there, and every
  label set \<open>L\<close>: \<open>relabel\<close> returns a label set \<open>L'\<close>, and applied to
  \<open>L'\<close> it returns \<open>L'\<close> again; so \<open>Process\<close> with the rule twice in
  succession returns what it returns with the rule once.
\<close>

theorem relabel_labelkeep_idempotent:
  assumes "Action cfg = RelabelLabelKeep"
    and "Initialized (Regex cfg)" and "Pool_Get (Regex cfg) = Some re"
  shows "\<exists>L'. relabel ext L cfg = Inr (Some L') \<and> relabel ext L' cfg = Inr (Some L') \<and>
           Process ext L [cfg, cfg] = Process ext L [cfg]"
proof -
  define L' where "L' = (if \<forall>l \<in> set L. MatchString re (Name l) then L
             else sort_key Name (filter (\<lambda>l. MatchString re (Name l)) L))"
  have 1: "relabel ext L cfg = Inr (Some L')"
    unfolding L'_def using assms by (rule relabel_labelkeep)
  have all: "\<forall>l \<in> set L'. MatchString re (Name l)"
  proof (cases "\<forall>l \<in> set L. MatchString re (Name l)")
    case True
    then show ?thesis by (simp add: L'_def)
  next
    case False
    then have "L' = sort_key Name (filter (\<lambda>l. MatchString re (Name l)) L)"
      unfolding L'_def by (rule if_not_P)
    then show ?thesis by simp
  qed
  have "relabel ext L' cfg =
      Inr (Some (if \<forall>l \<in> set L'. MatchString re (Name l) then L'
                 else sort_key Name (filter (\<lambda>l. MatchString re (Name l)) L')))"
    using assms by (rule relabel_labelkeep)
  then have 2: "relabel ext L' cfg = Inr (Some L')"
    using all by simp
  have 3: "Process ext L [cfg, cfg] = Process ext L [cfg]"
    by (simp add: 1 2)
  from 1 2 3 show ?thesis
    by blast
qed

theorem relabel_labelkeep_idempotent_witness:
  "relabel example_externals canary_and_job (rule_canary RelabelLabelKeep) =
     Inr (Some [\<lparr>Name = ''canary'', Value = ''1''\<rparr>]) \<and>
   relabel example_externals [\<lparr>Name = ''canary'', Value = ''1''\<rparr>]
     (rule_canary RelabelLabelKeep) = Inr (Some [\<lparr>Name = ''canary'', Value = ''1''\<rparr>]) \<and>
   Process example_externals canary_and_job
     [rule_canary RelabelLabelKeep, rule_canary RelabelLabelKeep] =
     Inr (Some [\<lparr>Name = ''canary'', Value = ''1''\<rparr>])"
proof -
  have act: "Action (rule_canary RelabelLabelKeep) = RelabelLabelKeep"
    and init: "Initialized (Regex (rule_canary RelabelLabelKeep))"
    and pool: "Pool_Get (Regex (rule_canary RelabelLabelKeep)) = Some re_canary"
    by (simp_all add: rule_canary_def)
  have once: "relabel example_externals canary_and_job (rule_canary RelabelLabelKeep) =
      Inr (Some [\<lparr>Name = ''canary'', Value = ''1''\<rparr>])"
    by (simp add: relabel_def relabel_switch_def probe_def example_defs NewBuilder_def
        Builder_Del_def Builder_Labels_def)
  obtain L' where
    1: "relabel example_externals canary_and_job (rule_canary RelabelLabelKeep) = Inr (Some L')"
    and 2: "relabel example_externals L' (rule_canary RelabelLabelKeep) = Inr (Some L')"
    and 3: "Process example_externals canary_and_job
        [rule_canary RelabelLabelKeep, rule_canary RelabelLabelKeep] =
        Process example_externals canary_and_job [rule_canary RelabelLabelKeep]"
    using relabel_labelkeep_idempotent [OF act init pool, of example_externals canary_and_job]
    by blast
  from 1 once have L': "L' = [\<lparr>Name = ''canary'', Value = ''1''\<rparr>]"
    by simp
  have 4: "Process example_externals canary_and_job [rule_canary RelabelLabelKeep] =
      Inr (Some [\<lparr>Name = ''canary'', Value = ''1''\<rparr>])"
    by (simp add: once)
  from once 2 3 4 show ?thesis
    by (simp only: L' simp_thms)
qed

section \<open>Panics\<close>

lemma labelmap_loop_total: "\<exists>lb'. labelmap_loop (Some re) repl ls lb = Inr lb'"
  by (induction ls arbitrary: lb) simp_all

lemma labeldrop_loop_total: "\<exists>lb'. labeldrop_loop (Some re) ls lb = Inr lb'"
  by (induction ls arbitrary: lb) simp_all

lemma labelkeep_loop_total: "\<exists>lb'. labelkeep_loop (Some re) ls lb = Inr lb'"
  by (induction ls arbitrary: lb) simp_all

lemma labelmap_loop_panic: "labelmap_loop regex repl ls lb = Inl p \<Longrightarrow> p = PanicNilDereference"
proof (induction ls arbitrary: lb)
  case Nil
  then show ?case by simp
next
  case (Cons l ls)
  then show ?case
    by (cases regex) (simp_all split: if_splits)
qed

lemma labeldrop_loop_panic: "labeldrop_loop regex ls lb = Inl p \<Longrightarrow> p = PanicNilDereference"
proof (induction ls arbitrary: lb)
  case Nil
  then show ?case by simp
next
  case (Cons l ls)
  then show ?case
    by (cases regex) (simp_all split: if_splits)
qed

lemma labelkeep_loop_panic: "labelkeep_loop regex ls lb = Inl p \<Longrightarrow> p = PanicNilDereference"
proof (induction ls arbitrary: lb)
  case Nil
  then show ?case by simp
next
  case (Cons l ls)
  then show ?case
    by (cases regex) (simp_all split: if_splits)
qed


lemma relabel_switch_unknown:
  assumes "relabel_switch ext lset cfg v lb regex = Inl (PanicUnknownAction a)"
  shows "\<not> known_action (Action cfg)"
proof (cases "Action cfg")
  case RelabelReplace
  with assms show ?thesis
    by (simp add: relabel_switch_def Let_def split: option.splits if_splits)
next
  case RelabelKeep
  with assms show ?thesis
    by (simp add: relabel_switch_def split: option.splits if_splits)
next
  case RelabelDrop
  with assms show ?thesis
    by (simp add: relabel_switch_def split: option.splits if_splits)
next
  case RelabelHashMod
  with assms show ?thesis
    by (simp add: relabel_switch_def Let_def split: if_splits)
next
  case RelabelLabelMap
  with assms have "labelmap_loop regex (Replacement cfg) lset lb = Inl (PanicUnknownAction a)"
    by (simp add: relabel_switch_def split: sum.splits)
  then show ?thesis
    by (auto dest: labelmap_loop_panic)
next
  case RelabelLabelDrop
  with assms have "labeldrop_loop regex lset lb = Inl (PanicUnknownAction a)"
    by (simp add: relabel_switch_def split: sum.splits)
  then show ?thesis
    by (auto dest: labeldrop_loop_panic)
next
  case RelabelLabelKeep
  with assms have "labelkeep_loop regex lset lb = Inl (PanicUnknownAction a)"
    by (simp add: relabel_switch_def split: sum.splits)
  then show ?thesis
    by (auto dest: labelkeep_loop_panic)
next
  case (RelabelOther s)
  then show ?thesis by simp
qed


lemma relabel_switch_total:
  assumes "known_action (Action cfg)"
    and "Action cfg = RelabelHashMod \<longrightarrow> Modulus cfg \<noteq> 0"
    and "Action cfg \<noteq> RelabelHashMod \<longrightarrow> regex \<noteq> None"
  shows "\<exists>r. relabel_switch ext lset cfg v lb regex = Inr r"
proof (cases "Action cfg")
  case RelabelReplace
  with assms(3) obtain re where re: "regex = Some re" by auto
  show ?thesis
    by (simp add: relabel_switch_def RelabelReplace re Let_def split: option.splits)
next
  case RelabelKeep
  with assms(3) obtain re where re: "regex = Some re" by auto
  show ?thesis
    by (simp add: relabel_switch_def RelabelKeep re)
next
  case RelabelDrop
  with assms(3) obtain re where re: "regex = Some re" by auto
  show ?thesis
    by (simp add: relabel_switch_def RelabelDrop re)
next
  case RelabelHashMod
  with assms(2) show ?thesis
    by (simp add: relabel_switch_def Let_def)
next
  case RelabelLabelMap
  with assms(3) obtain re where re: "regex = Some re" by auto
  obtain lb' where "labelmap_loop (Some re) (Replacement cfg) lset lb = Inr lb'"
    using labelmap_loop_total by blast
  then show ?thesis
    by (simp add: relabel_switch_def RelabelLabelMap re)
next
  case RelabelLabelDrop
  with assms(3) obtain re where re: "regex = Some re" by auto
  obtain lb' where "labeldrop_loop (Some re) lset lb = Inr lb'"
    using labeldrop_loop_total by blast
  then show ?thesis
    by (simp add: relabel_switch_def RelabelLabelDrop re)
next
  case RelabelLabelKeep
  with assms(3) obtain re where re: "regex = Some re" by auto
  obtain lb' where "labelkeep_loop (Some re) lset lb = Inr lb'"
    using labelkeep_loop_total by blast
  then show ?thesis
    by (simp add: relabel_switch_def RelabelLabelKeep re)
next
  case (RelabelOther s)
  with assms(1) show ?thesis by simp
qed

text \<open>
  C9. A rule whose action is none of the seven known actions makes \<open>relabel\<close>
  panic: at line 112 with the unknown action, unless line 55 has panicked before on a
  nil from the pool. For a rule with one of the seven known actions the panic of line
  112 is never the result. For a validated rule (a known action; a compiled expression
  when the action is not HashMod; a modulus other than 0 when it is) \<open>relabel\<close>
  does not panic, whatever the label set: it returns nil or a label set.
\<close>

theorem relabel_panics:
  "(\<forall>s. Action cfg = RelabelOther s \<longrightarrow>
      relabel ext lset cfg =
        (if Initialized (Regex cfg) \<and> Pool_Get (Regex cfg) = None then Inl PanicNilRegex
         else Inl (PanicUnknownAction (RelabelOther s)))) \<and>
   (known_action (Action cfg) \<longrightarrow> (\<forall>a. relabel ext lset cfg \<noteq> Inl (PanicUnknownAction a))) \<and>
   (validated cfg \<longrightarrow> (\<exists>r. relabel ext lset cfg = Inr r))"
proof (intro conjI allI impI)
  fix s assume "Action cfg = RelabelOther s"
  then show "relabel ext lset cfg =
      (if Initialized (Regex cfg) \<and> Pool_Get (Regex cfg) = None then Inl PanicNilRegex
       else Inl (PanicUnknownAction (RelabelOther s)))"
    by (simp add: relabel_def relabel_switch_def Let_def split: option.splits)
next
  fix a assume k: "known_action (Action cfg)"
  show "relabel ext lset cfg \<noteq> Inl (PanicUnknownAction a)"
  proof
    assume "relabel ext lset cfg = Inl (PanicUnknownAction a)"
    then have "\<exists>regex. relabel_switch ext lset cfg (probe lset cfg) (NewBuilder lset) regex =
        Inl (PanicUnknownAction a)"
      by (auto simp add: relabel_def Let_def split: if_splits option.splits)
    then show False
      using k relabel_switch_unknown by blast
  qed
next
  assume v: "validated cfg"
  show "\<exists>r. relabel ext lset cfg = Inr r"
  proof (cases "Initialized (Regex cfg)")
    case True
    with v obtain re where re: "Pool_Get (Regex cfg) = Some re"
      by (auto simp add: validated_def regex_of_def split: if_splits)
    have "\<exists>r. relabel_switch ext lset cfg (probe lset cfg) (NewBuilder lset) (Some re) = Inr r"
      using v by (intro relabel_switch_total) (auto simp add: validated_def split: if_splits)
    then show ?thesis
      by (simp add: relabel_def True re)
  next
    case False
    have "\<exists>r. relabel_switch ext lset cfg (probe lset cfg) (NewBuilder lset) None = Inr r"
      using v False
      by (intro relabel_switch_total) (auto simp add: validated_def regex_of_def split: if_splits)
    then show ?thesis
      by (simp add: relabel_def False)
  qed
qed

theorem relabel_panics_witness:
  "relabel example_externals job_canary (rule_canary (RelabelOther ''explode'')) =
     Inl (PanicUnknownAction (RelabelOther ''explode'')) \<and>
   known_action (Action (rule_canary RelabelLabelKeep)) \<and>
   (\<forall>a. relabel example_externals canary_and_job (rule_canary RelabelLabelKeep) \<noteq>
      Inl (PanicUnknownAction a)) \<and>
   validated (rule_canary RelabelLabelKeep) \<and>
   (\<exists>r. relabel example_externals canary_and_job (rule_canary RelabelLabelKeep) = Inr r) \<and>
   validated (rule_hashmod 8) \<and>
   (\<exists>r. relabel example_externals instance_foo (rule_hashmod 8) = Inr r)"
proof -
  have v1: "validated (rule_canary RelabelLabelKeep)"
    and v2: "validated (rule_hashmod 8)"
    by (simp_all add: validated_def regex_of_def rule_canary_def rule_hashmod_def)
  have k: "known_action (Action (rule_canary RelabelLabelKeep))"
    by (simp add: rule_canary_def)
  have a: "Action (rule_canary (RelabelOther ''explode'')) = RelabelOther ''explode''"
    and i: "Initialized (Regex (rule_canary (RelabelOther ''explode'')))"
    and p: "Pool_Get (Regex (rule_canary (RelabelOther ''explode''))) \<noteq> None"
    by (simp_all add: rule_canary_def)
  show ?thesis
    using relabel_panics [of "rule_canary (RelabelOther ''explode'')" example_externals job_canary]
      relabel_panics [of "rule_canary RelabelLabelKeep" example_externals canary_and_job]
      relabel_panics [of "rule_hashmod 8" example_externals instance_foo]
    by (simp add: v1 v2 k a i p)
qed

text \<open>
  Without validation a known action can still panic, in the Go runtime: a nil
  \<open>regex\<close> where Drop calls \<open>MatchString\<close>, a modulus of 0 in HashMod.
\<close>

lemma relabel_unvalidated_examples:
  "relabel example_externals job_canary
     ((rule_canary RelabelDrop)\<lparr>Regex := \<lparr>Initialized = False, Pool_Get = None\<rparr>\<rparr>) =
     Inl PanicNilDereference \<and>
   relabel example_externals instance_foo (rule_hashmod 0) = Inl PanicDivideByZero"
  by (simp add: relabel_def relabel_switch_def rule_canary_def rule_hashmod_def)

end
